theory Spec2Isabelle
  imports Complex_Main
begin

section \<open>Effective-medium models of rockphypy (EM.py)\<close>

text \<open>
  The embedding follows \<^verbatim>\<open>src/rockphypy/EM.py\<close>. Floating-point numbers are read as
  real numbers: a definition gives the operations that the program performs, in their
  order, and not the rounded value of each. Rounding, overflow, \<^verbatim>\<open>inf\<close> and
  \<^verbatim>\<open>nan\<close> are not part of the model, so no order or exact equality of computed
  results that rounding could decide is derived here.
  Exceptions are values of the type \<open>error\<close>. A function whose arguments are plain
  Python numbers raises \<^verbatim>\<open>ZeroDivisionError\<close> on a zero divisor, and the model has a
  branch for each such division. numpy arrays and numpy floats do not raise on a zero
  divisor or on an argument outside the domain of a root, a power or \<^verbatim>\<open>arccos\<close> (they
  produce \<^verbatim>\<open>inf\<close> or \<^verbatim>\<open>nan\<close>), so array code is modelled with the operations of the
  reals and agrees with the program wherever no divisor is zero and every argument is in
  the domain; shape mismatches of arrays raise and are modelled.
\<close>

datatype error = ZeroDivisionError | ValueError | IndexError

definition py_bind :: "error + 'a \<Rightarrow> ('a \<Rightarrow> error + 'b) \<Rightarrow> error + 'b" where
  "py_bind m k = (case m of Inl e \<Rightarrow> Inl e | Inr v \<Rightarrow> k v)"

text \<open>\<^verbatim>\<open>x / y\<close> and \<^verbatim>\<open>x ** -1\<close> on Python numbers.\<close>

definition py_div :: "real \<Rightarrow> real \<Rightarrow> error + real" where
  "py_div x y = (if y = 0 then Inl ZeroDivisionError else Inr (x / y))"


subsection \<open>Voigt, Reuss and Hill averages\<close>

text \<open>
  \<^verbatim>\<open>np.dot\<close> of two one-dimensional arrays: the sum of the products, and
  \<^verbatim>\<open>ValueError\<close> when the lengths differ.
\<close>

definition np_dot :: "real list \<Rightarrow> real list \<Rightarrow> error + real" where
  "np_dot a b =
     (if length a = length b then Inr (sum_list (map2 (*) a b)) else Inl ValueError)"

text \<open>\<^verbatim>\<open>VRH(volumes, M)\<close>, lines 17 to 34, on one-dimensional arrays.\<close>

definition VRH :: "real list \<Rightarrow> real list \<Rightarrow> error + real \<times> real \<times> real" where
  "VRH volumes M =
     py_bind (np_dot volumes M) (\<lambda>M_v.
     py_bind (np_dot volumes (map (\<lambda>m. 1 / m) M)) (\<lambda>d.
     let M_r = inverse d;
         M_h = 0.5 * (M_r + M_v)
     in Inr (M_v, M_r, M_h)))"

subsection \<open>Hashin-Shtrikman bounds\<close>


subsection \<open>Arrays\<close>

text \<open>
  A one-dimensional float array is an object on the heap: a reference and, under it, the
  list of its entries. Two names for the same array are the same reference, so an
  assignment through one is seen through the other.
\<close>

type_synonym ref = nat

type_synonym heap = "ref \<Rightarrow> real list"

text \<open>
  Elementwise \<^verbatim>\<open>a * b\<close> with numpy's broadcasting of one-dimensional arrays: equal
  lengths, or one operand of length 1, and \<^verbatim>\<open>ValueError\<close> otherwise.
\<close>

definition np_mul :: "real list \<Rightarrow> real list \<Rightarrow> error + real list" where
  "np_mul a b =
     (if length a = length b then Inr (map2 (*) a b)
      else if length a = 1 then Inr (map (\<lambda>y. hd a * y) b)
      else if length b = 1 then Inr (map (\<lambda>x. x * hd b) a)
      else Inl ValueError)"

definition np_mean :: "real list \<Rightarrow> real" where
  "np_mean a = sum_list a / real (length a)"

subsection \<open>Shape factors P and Q\<close>

text \<open>
  Lines 400 and 402 at one entry of \<^verbatim>\<open>alpha_\<close> (written \<open>alpha'\<close> here): the
  oblate expression uses \<^verbatim>\<open>np.arccos\<close>, the prolate expression is written with
  \<^verbatim>\<open>np.cosh(...)**-1\<close>.
\<close>

definition theta_oblate :: "real \<Rightarrow> real" where
  "theta_oblate a = a / (1 - a\<^sup>2) powr (3 / 2) * (arccos a - a * sqrt (1 - a\<^sup>2))"

definition theta_prolate :: "real \<Rightarrow> real" where
  "theta_prolate a = a / (a\<^sup>2 - 1) powr (3 / 2) * (a * (a\<^sup>2 - 1) powr 0.5 - inverse (cosh a))"

text \<open>
  Lines 396 to 402: \<^verbatim>\<open>theta = np.empty(dim)\<close> is filled where \<^verbatim>\<open>alpha_ < 1\<close> and
  where \<^verbatim>\<open>alpha_ > 1\<close>; any other entry keeps what \<^verbatim>\<open>np.empty\<close> left there, which
  is the parameter \<open>np_empty\<close>.
\<close>

definition shape_integral :: "(nat \<Rightarrow> real) \<Rightarrow> real list \<Rightarrow> real list" where
  "shape_integral np_empty alpha' =
     map (\<lambda>i. let a = alpha' ! i in
               if a < 1 then theta_oblate a
               else if 1 < a then theta_prolate a
               else np_empty i) [0..<length alpha']"

text \<open>Lines 404 to 421 at one index of the arrays.\<close>

definition PQ_entry :: "real \<Rightarrow> real \<Rightarrow> real \<Rightarrow> real \<Rightarrow> real \<Rightarrow> real \<Rightarrow> real \<times> real" where
  "PQ_entry Km Gm Ki Gi alpha' theta =
    (let f = alpha'\<^sup>2 * (3 * theta - 2) / (1 - alpha'\<^sup>2);
         A = Gi / Gm - 1;
         B = (Ki / Km - Gi / Gm) / 3;
         R = Gm / (Km + (4 / 3) * Gm);
         F1 = 1 + A * (1.5 * (f + theta) - R * (1.5 * f + 2.5 * theta - 4 / 3));
         F2 = 1 + A * (1 + 1.5 * (f + theta) - R * (1.5 * f + 2.5 * theta)) + B * (3 - 4 * R)
              + A * (A + 3 * B) * (1.5 - 2 * R) * (f + theta - R * (f - theta + 2 * theta\<^sup>2));
         F3 = 1 + A * (1 - f - 1.5 * theta + R * (f + theta));
         F4 = 1 + (A / 4) * (f + 3 * theta - R * (f - theta));
         F5 = A * (- f + R * (f + theta - 4 / 3)) + B * theta * (3 - 4 * R);
         F6 = 1 + A * (1 + f - R * (f + theta)) + B * (1 - theta) * (3 - 4 * R);
         F7 = 2 + (A / 4) * (3 * f + 9 * theta - R * (3 * f + 5 * theta)) + B * theta * (3 - 4 * R);
         F8 = A * (1 - 2 * R + (f / 2) * (R - 1) + (theta / 2) * (5 * R - 3))
              + B * (1 - theta) * (3 - 4 * R);
         F9 = A * ((R - 1) * f - R * theta) + B * theta * (3 - 4 * R);
         Tiijj = 3 * F1 / F2;
         Tijij = Tiijj / 3 + 2 / F3 + 1 / F4 + (F4 * F5 + F6 * F7 - F8 * F9) / (F2 * F4);
         P = Tiijj / 3;
         Q = (Tijij - P) / 5
     in (P, Q))"

text \<open>
  \<^verbatim>\<open>PQ_vectorize(Km, Gm, Ki, Gi, alpha)\<close>, lines 378 to 426, with \<^verbatim>\<open>Km\<close> and
  \<^verbatim>\<open>Gm\<close> numpy floats, as \<^verbatim>\<open>Berrymann_func\<close> passes them, and the other three
  arguments one-dimensional float arrays. \<^verbatim>\<open>alpha_ = alpha\<close> binds a second name to the
  caller's array, and \<^verbatim>\<open>alpha_[alpha==1]=0.999\<close> assigns through it. The heap is
  returned also when the call raises: the assignment comes first. The arrays \<^verbatim>\<open>P\<close>
  and \<^verbatim>\<open>Q\<close> of lines 394 and 395 are rebound on lines 420 and 421 before any use.

  A boolean mask that is not empty must have the length of the array it indexes
  (\<^verbatim>\<open>IndexError\<close>); an empty mask is not checked and selects nothing. Arrays of
  different lengths combine only when one has length 1 (\<^verbatim>\<open>ValueError\<close>), and the result
  of combining an empty array with one of length 1 is empty. So, for an \<^verbatim>\<open>alpha\<close> that
  is not empty, a call returns only when \<^verbatim>\<open>Ki\<close>, \<^verbatim>\<open>Gi\<close> and \<^verbatim>\<open>alpha\<close> have one
  length. For an empty \<^verbatim>\<open>alpha\<close> every array built from \<^verbatim>\<open>alpha_\<close> is empty: the call
  returns two empty arrays when \<^verbatim>\<open>Ki\<close> and \<^verbatim>\<open>Gi\<close> have at most one entry each, and
  raises \<^verbatim>\<open>ValueError\<close> otherwise. The masks of lines 423 and 425 are computed from
  \<^verbatim>\<open>alpha\<close> as it is then.
\<close>

definition PQ_vectorize ::
  "real \<Rightarrow> real \<Rightarrow> ref \<Rightarrow> ref \<Rightarrow> ref \<Rightarrow> (nat \<Rightarrow> real) \<Rightarrow> heap
     \<Rightarrow> (error + real list \<times> real list) \<times> heap" where
  "PQ_vectorize Km Gm Ki Gi alpha np_empty h =
    (let dim = length (h Ki);
         alpha' = alpha;
         h1 = h(alpha' := map2 (\<lambda>m a. if m then 0.999 else a)
                               (map (\<lambda>a. a = 1) (h alpha)) (h alpha'))
     in if length (h1 alpha') = 0 then
          (if dim \<le> 1 \<and> length (h1 Gi) \<le> 1 then (Inr ([], []), h1)
           else (Inl ValueError, h1))
        else if length (h1 alpha') \<noteq> dim then (Inl IndexError, h1)
        else if length (h1 Gi) \<noteq> dim then
          (Inl (if length (h1 Gi) = 1 \<or> dim = 1 then IndexError else ValueError), h1)
        else
          let theta = shape_integral np_empty (h1 alpha');
              PQ = map (\<lambda>i. PQ_entry Km Gm (h1 Ki ! i) (h1 Gi ! i) (h1 alpha' ! i) (theta ! i))
                       [0..<dim];
              P = map fst PQ;
              Q = map snd PQ;
              P = map (\<lambda>i. if h1 alpha ! i = 1
                              then (Km + 4 * Gm / 3) / (h1 Ki ! i + 4 * Gm / 3)
                              else P ! i) [0..<dim];
              kesai = Gm / 6 * (9 * Km + 8 * Gm) / (Km + 2 * Gm);
              Q = map (\<lambda>i. if h1 alpha ! i = 1
                              then (Gm + kesai) / (h1 Gi ! i + kesai)
                              else Q ! i) [0..<dim]
          in (Inr (P, Q), h1))"

subsection \<open>Berryman's self-consistent scheme\<close>

text \<open>
  \<^verbatim>\<open>Berrymann_func(params, K, G, X, Alpha)\<close>, lines 427 to 447. The arrays are read
  after the call of \<^verbatim>\<open>PQ_vectorize\<close>.
\<close>

definition Berrymann_func ::
  "real \<times> real \<Rightarrow> ref \<Rightarrow> ref \<Rightarrow> ref \<Rightarrow> ref \<Rightarrow> (nat \<Rightarrow> real) \<Rightarrow> heap
     \<Rightarrow> (error + real \<times> real) \<times> heap" where
  "Berrymann_func params K G X Alpha np_empty h =
    (let (K_sc, G_sc) = params in
     case PQ_vectorize K_sc G_sc K G Alpha np_empty h of
       (Inl e, h') \<Rightarrow> (Inl e, h')
     | (Inr (P, Q), h') \<Rightarrow>
         (py_bind (np_mul (h' X) (map (\<lambda>k. k - K_sc) (h' K))) (\<lambda>xk.
          py_bind (np_mul xk P) (\<lambda>t1.
          let eq1 = sum_list t1 in
          py_bind (np_mul (h' X) (map (\<lambda>g. g - G_sc) (h' G))) (\<lambda>xg.
          py_bind (np_mul xg Q) (\<lambda>t2.
          let eq2 = sum_list t2 in
          Inr (eq1, eq2))))), h'))"

text \<open>
  \<^verbatim>\<open>scipy.optimize.fsolve\<close> is not part of the repository and is a parameter here: any
  function from the residual function, the starting point and the heap to either the
  exception that the residual function raised, or the last iterate together with the
  integer flag \<^verbatim>\<open>ier\<close> of the solver (1 when a solution was found). Both calls in
  the source leave \<^verbatim>\<open>full_output\<close> at its default, so they receive the iterate only.
\<close>

type_synonym residual = "real \<times> real \<Rightarrow> heap \<Rightarrow> (error + real \<times> real) \<times> heap"

type_synonym root_finder =
  "residual \<Rightarrow> real \<times> real \<Rightarrow> heap \<Rightarrow> (error + (real \<times> real) \<times> int) \<times> heap"

text \<open>\<^verbatim>\<open>Berrymann_sc(K, G, X, Alpha)\<close>, lines 361 to 376.\<close>

definition Berrymann_sc ::
  "root_finder \<Rightarrow> ref \<Rightarrow> ref \<Rightarrow> ref \<Rightarrow> ref \<Rightarrow> (nat \<Rightarrow> real) \<Rightarrow> heap
     \<Rightarrow> (error + real \<times> real) \<times> heap" where
  "Berrymann_sc fsolve K G X Alpha np_empty h =
    (case fsolve (\<lambda>params. Berrymann_func params K G X Alpha np_empty)
                 (np_mean (h K), np_mean (h G)) h of
       (Inl e, h') \<Rightarrow> (Inl e, h')
     | (Inr ((K_sc, G_sc), ier), h') \<Rightarrow> (Inr (K_sc, G_sc), h'))"

subsection \<open>O'Connell-Budiansky, fluid-saturated cracks\<close>

text \<open>\<^verbatim>\<open>OC_R_funcs(params, crd, nu_0, w)\<close>, lines 494 to 511.\<close>

definition OC_R_funcs :: "real \<times> real \<Rightarrow> real \<Rightarrow> real \<Rightarrow> real \<Rightarrow> real \<times> real" where
  "OC_R_funcs params crd nu_0 w =
    (let (nu_eff, D) = params;
         eq1 = 45 / 16 * (nu_0 - nu_eff) / (1 - nu_eff\<^sup>2) * (2 - nu_eff)
                 / (D * (1 + 3 * nu_0) * (2 - nu_eff) - 2 * (1 - 2 * nu_0)) - crd;
         eq2 = crd * D\<^sup>2
               - (crd + 9 / 16 * (1 - 2 * nu_eff) / (1 - nu_0\<^sup>2) + 3 * w / (4 * pi)) * D
               + 9 / 16 * (1 - 2 * nu_eff) / (1 - nu_0\<^sup>2)
     in (eq1, eq2))"

text \<open>
  \<^verbatim>\<open>OConnell_Budiansky_fl(K0, G0, Kfl, crd, alpha)\<close>, lines 468 to 492. The arguments
  are scalars; \<^verbatim>\<open>nu_eff\<close> and \<^verbatim>\<open>D\<close> come back from the solver as numpy floats.
\<close>

definition OConnell_Budiansky_fl ::
  "root_finder \<Rightarrow> real \<Rightarrow> real \<Rightarrow> real \<Rightarrow> real \<Rightarrow> real \<Rightarrow> heap
     \<Rightarrow> (error + real \<times> real) \<times> heap" where
  "OConnell_Budiansky_fl fsolve K0 G0 Kfl crd alpha h =
    (case py_div (3 * K0 - 2 * G0) (6 * K0 + 2 * G0) of
       Inl e \<Rightarrow> (Inl e, h)
     | Inr nu0 \<Rightarrow>
    (case py_bind (py_div Kfl alpha) (\<lambda>q. py_div q K0) of
       Inl e \<Rightarrow> (Inl e, h)
     | Inr w \<Rightarrow>
    (case fsolve (\<lambda>params h. (Inr (OC_R_funcs params crd nu0 w), h)) (0.2, 0.9) h of
       (Inl e, h') \<Rightarrow> (Inl e, h')
     | (Inr ((nu_eff, D), ier), h') \<Rightarrow>
         let K_sat = K0 * (1 - 16 * (1 - nu_eff\<^sup>2) * crd * D / (9 * (1 - 2 * nu_eff)));
             G_sat = G0 * (1 - 32 / 45 * (1 - nu_eff) * (D + 3 / (2 - nu_eff)) * crd)
         in (Inr (K_sat, G_sat), h'))))"

subsection \<open>Example inputs\<close>

text \<open>
  A stiff mineral with spherical pores: \<^verbatim>\<open>K=[36,0]\<close> under reference 10,
  \<^verbatim>\<open>G=[45,0]\<close> under reference 11, \<^verbatim>\<open>X=[0.9,0.1]\<close> under reference 12 and
  \<^verbatim>\<open>Alpha=[1,1]\<close> under reference 13.
\<close>

definition mixture :: heap where
  "mixture = (\<lambda>r. [])(10 := [36, 0], 11 := [45, 0], 12 := [0.9, 0.1], 13 := [1, 1])"

text \<open>One possible content of a fresh \<^verbatim>\<open>np.empty\<close> array.\<close>

definition zeros :: "nat \<Rightarrow> real" where
  "zeros i = 0"

text \<open>
  A root finder that evaluates the residuals once, at the starting point, and stops
  there without progress: it returns the starting point with \<^verbatim>\<open>ier = 5\<close>.
\<close>

definition gives_up :: root_finder where
  "gives_up func x0 h =
     (case func x0 h of
        (Inl e, h') \<Rightarrow> (Inl e, h')
      | (Inr r, h') \<Rightarrow> (Inr (x0, 5), h'))"

section \<open>Properties\<close>

lemma py_bind_Inr [simp]: "py_bind (Inr v) k = k v"
  by (simp add: py_bind_def)

lemma py_bind_Inl [simp]: "py_bind (Inl e) k = Inl e"
  by (simp add: py_bind_def)

subsection \<open>Voigt, Reuss and Hill averages\<close>

lemma dot_as_sum:
  "length a = length b \<Longrightarrow> sum_list (map2 (*) a b) = (\<Sum>i<length a. a ! i * b ! i :: real)"
  by (simp add: sum_list_sum_nth atLeast0LessThan)

text \<open>
  C6. For sequences \<open>volumes\<close> and \<open>M\<close> of equal length with all moduli nonzero,
  \<open>VRH\<close> returns the triple (Voigt, Reuss, Hill): Voigt is the dot product of the
  volumes and the moduli, Reuss the inverse of the dot product of the volumes and the
  inverted moduli, Hill the arithmetic mean of the two.
\<close>

theorem VRH_formula:
  assumes "length volumes = length M" "\<forall>m\<in>set M. m \<noteq> 0"
  shows "VRH volumes M =
     Inr ((\<Sum>i<length M. volumes ! i * M ! i),
          inverse (\<Sum>i<length M. volumes ! i * inverse (M ! i)),
          ((\<Sum>i<length M. volumes ! i * M ! i) + inverse (\<Sum>i<length M. volumes ! i * inverse (M ! i))) / 2)"
  using assms by (simp add: VRH_def np_dot_def dot_as_sum Let_def inverse_eq_divide)

theorem VRH_formula_witness:
  "length [3/10, 7/10 :: real] = length [36, 2 :: real] \<and> (36::real) \<noteq> 0 \<and> (2::real) \<noteq> 0 \<and>
   VRH [3/10, 7/10] [36, 2] = Inr (61/5, 360/129, (61/5 + 360/129) / 2)"
  using VRH_formula [of "[3/10, 7/10]" "[36, 2]"] by (simp add: lessThan_Suc numeral_2_eq_2)

subsection \<open>The flag of the Hashin-Shtrikman bounds\<close>




subsection \<open>Hashin-Shtrikman bounds of two phases with one bulk modulus\<close>



subsection \<open>The oblate shape integral below its value for the sphere\<close>

text \<open>
  With \<open>y = arccos a\<close> the oblate expression is \<open>cos y (y - sin y cos y) / (sin y)\<^sup>3\<close>.
  It is below \<open>2 / 3\<close>, its limit at the sphere, because
  \<open>sin y (2 + (cos y)\<^sup>2) - 3 y cos y\<close> vanishes at 0 and has the positive derivative
  \<open>3 sin y (y - sin y cos y)\<close> on \<open>(0, \<pi>)\<close>.
\<close>

lemma sin_less_arg:
  fixes y :: real
  assumes "0 < y" "y \<le> pi"
  shows "sin y < y"
proof -
  have "(\<lambda>t. t - sin t) 0 < (\<lambda>t. t - sin t) y"
  proof (rule DERIV_pos_imp_increasing_open [OF assms(1)])
    fix t :: real assume t: "0 < t" "t < y"
    have "cos t < cos 0" using t assms by (intro cos_monotone_0_pi) auto
    then have "0 < 1 - cos t" by simp
    moreover have "((\<lambda>t. t - sin t) has_real_derivative (1 - cos t)) (at t)"
      by (auto intro!: derivative_eq_intros)
    ultimately show "\<exists>d. ((\<lambda>t. t - sin t) has_real_derivative d) (at t) \<and> 0 < d" by blast
  next
    show "continuous_on {0..y} (\<lambda>t. t - sin t)" by (intro continuous_intros)
  qed
  then show ?thesis by simp
qed

lemma sphere_gap:
  fixes y :: real
  assumes "0 < y" "y < pi"
  shows "3 * y * cos y < sin y * (2 + (cos y)\<^sup>2)"
proof -
  let ?g = "\<lambda>t. sin t * (2 + (cos t)\<^sup>2) - 3 * t * cos t"
  have "?g 0 < ?g y"
  proof (rule DERIV_pos_imp_increasing_open [OF assms(1)])
    fix t :: real assume t: "0 < t" "t < y"
    have st: "0 < sin t" using t assms by (intro sin_gt_zero) auto
    have "sin t < t" using t assms by (intro sin_less_arg) auto
    moreover have "sin t * cos t \<le> sin t * 1" using st by (intro mult_left_mono) auto
    ultimately have "0 < t - sin t * cos t" by simp
    then have pos: "0 < 3 * sin t * (t - sin t * cos t)" using st by simp
    have "(?g has_real_derivative
            (cos t * (2 + (cos t)\<^sup>2) + sin t * (2 * cos t * (- sin t)) - (3 * cos t + 3 * t * (- sin t)))) (at t)"
      by (auto intro!: derivative_eq_intros simp: power2_eq_square)
    moreover have "cos t * (2 + (cos t)\<^sup>2) + sin t * (2 * cos t * (- sin t)) - (3 * cos t + 3 * t * (- sin t))
        = 3 * sin t * (t - sin t * cos t)"
    proof -
      have ring: "c * (2 + c\<^sup>2) + s * (2 * c * (- s)) - (3 * c + 3 * t * (- s))
          = 3 * s * (t - s * c) + c * (s\<^sup>2 + c\<^sup>2 - 1)" for c s :: real
        by (simp add: algebra_simps power2_eq_square)
      show ?thesis by (simp only: ring [of "cos t" "sin t"] sin_cos_squared_add) simp
    qed
    ultimately show "\<exists>d. (?g has_real_derivative d) (at t) \<and> 0 < d" using pos by metis
  next
    show "continuous_on {0..y} ?g" by (intro continuous_intros)
  qed
  then show ?thesis by simp
qed

lemma powr_three_halves:
  fixes x :: real
  assumes "0 < x"
  shows "x powr (3 / 2) = x * sqrt x"
proof -
  have "x powr (3 / 2) = x powr (1 + 1 / 2)" by simp
  also have "\<dots> = x powr 1 * x powr (1 / 2)" by (rule powr_add)
  also have "\<dots> = x * sqrt x" using assms by (simp add: powr_half_sqrt)
  finally show ?thesis .
qed

lemma theta_oblate_less:
  assumes "0 < a" "a < 1"
  shows "theta_oblate a < 2 / 3"
proof -
  define y where "y = arccos a"
  define s where "s = sqrt (1 - a\<^sup>2)"
  have y: "0 < y" "y < pi" using arccos_lt_bounded [of a] assms by (simp_all add: y_def)
  have cy: "cos y = a" using assms by (simp add: y_def)
  have sy: "sin y = s" using assms by (simp add: y_def s_def sin_arccos)
  have "a\<^sup>2 < 1" using assms by (simp add: power_less_one_iff)
  then have x: "0 < 1 - a\<^sup>2" by simp
  then have s: "0 < s" by (simp add: s_def)
  have s2: "s\<^sup>2 = 1 - a\<^sup>2" using x by (simp add: s_def)
  have "(1 - a\<^sup>2) powr (3 / 2) = (1 - a\<^sup>2) * s"
    unfolding s_def by (rule powr_three_halves [OF x])
  also have "\<dots> = s ^ 3" unfolding s2 [symmetric] by (simp add: power3_eq_cube power2_eq_square)
  finally have pw: "(1 - a\<^sup>2) powr (3 / 2) = s ^ 3" .
  have "3 * y * a < s * (2 + a\<^sup>2)" using sphere_gap [OF y] by (simp add: cy sy)
  moreover have "2 * s ^ 3 - 3 * (a * (y - a * s))
      = s * (2 + a\<^sup>2) - 3 * y * a + 2 * s * (s\<^sup>2 - (1 - a\<^sup>2))"
    by (simp add: algebra_simps power2_eq_square power3_eq_cube)
  ultimately have "3 * (a * (y - a * s)) < 2 * s ^ 3"
    by (simp add: s2)
  then have "a * (y - a * s) / s ^ 3 < 2 / 3"
    using s by (simp add: field_simps)
  then show ?thesis
    by (simp add: theta_oblate_def pw y_def [symmetric] s_def [symmetric])
qed

subsection \<open>What a call of \<open>PQ_vectorize\<close> does to the heap, and what it returns\<close>

lemma masked_fill_map:
  "map2 (\<lambda>m a. if m then c else a) (map (\<lambda>a. a = (1::real)) xs) xs
     = map (\<lambda>a. if a = 1 then c else a) xs"
  by (induction xs) simp_all

lemma PQ_vectorize_heap:
  "snd (PQ_vectorize Km Gm Ki Gi alpha np_empty h)
     = h(alpha := map (\<lambda>a. if a = 1 then 0.999 else a) (h alpha))"
  unfolding PQ_vectorize_def Let_def masked_fill_map by (simp only: snd_conv if_distrib [of snd] if_cancel)

text \<open>
  After the assignment of line 398 no entry of \<^verbatim>\<open>alpha\<close> is 1, so the masks of lines
  423 and 425 select nothing: every returned entry is the one of lines 404 to 421 at the
  clamped aspect ratio.
\<close>

lemma PQ_vectorize_result:
  assumes "length (h Ki) = length (h alpha)" "length (h Gi) = length (h alpha)"
  shows "fst (PQ_vectorize Km Gm Ki Gi alpha np_empty h)
     = (let h1 = h(alpha := map (\<lambda>a. if a = 1 then 0.999 else a) (h alpha));
            theta = shape_integral np_empty (h1 alpha)
        in Inr (map (\<lambda>i. fst (PQ_entry Km Gm (h1 Ki ! i) (h1 Gi ! i) (h1 alpha ! i) (theta ! i)))
                    [0..<length (h alpha)],
                map (\<lambda>i. snd (PQ_entry Km Gm (h1 Ki ! i) (h1 Gi ! i) (h1 alpha ! i) (theta ! i)))
                    [0..<length (h alpha)]))"
proof -
  define h1 where "h1 = h(alpha := map (\<lambda>a. if a = 1 then 0.999 else a) (h alpha))"
  have l1: "length (h1 alpha) = length (h alpha)" by (simp add: h1_def)
  have lk: "length (h1 Ki) = length (h alpha)" using assms(1) by (simp add: h1_def)
  have lg: "length (h1 Gi) = length (h alpha)" using assms(2) by (simp add: h1_def)
  have ne: "i < length (h alpha) \<Longrightarrow> h1 alpha ! i \<noteq> 1" for i
    by (simp add: h1_def)
  have keep: "map (\<lambda>i. if h1 alpha ! i = 1 then c i else ys ! i) [0..<length (h alpha)]
              = map (\<lambda>i. ys ! i) [0..<length (h alpha)]" for c :: "nat \<Rightarrow> real" and ys
    using ne by (intro map_cong) auto
  show ?thesis
    unfolding PQ_vectorize_def Let_def masked_fill_map h1_def [symmetric]
    using assms(1) l1 lk lg by (simp add: keep o_def cong: map_cong)
qed

lemma PQ_vectorize_returns:
  assumes "length (h Ki) = length (h alpha)" "length (h Gi) = length (h alpha)"
  shows "\<exists>P Q. PQ_vectorize Km Gm Ki Gi alpha np_empty h
            = (Inr (P, Q), h(alpha := map (\<lambda>a. if a = 1 then 0.999 else a) (h alpha)))
          \<and> length P = length (h alpha) \<and> length Q = length (h alpha)"
proof -
  obtain P Q where r: "fst (PQ_vectorize Km Gm Ki Gi alpha np_empty h) = Inr (P, Q)"
      and l: "length P = length (h alpha)" "length Q = length (h alpha)"
    using PQ_vectorize_result [OF assms, of Km Gm np_empty] by (simp add: Let_def)
  have "PQ_vectorize Km Gm Ki Gi alpha np_empty h
      = (fst (PQ_vectorize Km Gm Ki Gi alpha np_empty h), snd (PQ_vectorize Km Gm Ki Gi alpha np_empty h))"
    by simp
  then show ?thesis using r l by (simp only: PQ_vectorize_heap) blast
qed

text \<open>
  No entry is left as \<^verbatim>\<open>np.empty\<close> made it, so a call does not depend on that
  content.
\<close>

lemma shape_integral_filled:
  assumes "\<forall>a\<in>set xs. a \<noteq> 1"
  shows "shape_integral e1 xs = shape_integral e2 xs"
  using assms by (auto simp: shape_integral_def Let_def)

lemma PQ_vectorize_np_empty:
  "PQ_vectorize Km Gm Ki Gi alpha e1 h = PQ_vectorize Km Gm Ki Gi alpha e2 h"
proof -
  have "shape_integral e1 (map (\<lambda>a. if a = 1 then 0.999 else a) (h alpha))
      = shape_integral e2 (map (\<lambda>a. if a = 1 then 0.999 else a) (h alpha))"
    by (rule shape_integral_filled) auto
  then show ?thesis
    unfolding PQ_vectorize_def Let_def masked_fill_map by simp
qed

lemma mixture_simps:
  "mixture 10 = [36, 0]" "mixture 11 = [45, 0]" "mixture 12 = [0.9, 0.1]" "mixture 13 = [1, 1]"
  by (simp_all add: mixture_def)

text \<open>
  C2 says that a call of \<open>PQ_vectorize\<close> leaves the caller's array \<^verbatim>\<open>alpha\<close> as it
  was, the clamp working on a private copy. In the program \<^verbatim>\<open>alpha_ = alpha\<close> is a
  second name for the caller's array, not a copy (the comment beside it says
  \<^verbatim>\<open>copy and modfiy\<close>): for the mixture with spherical pores the caller's
  \<^verbatim>\<open>[1, 1]\<close> is \<^verbatim>\<open>[0.999, 0.999]\<close> after the call.
\<close>

theorem PQ_vectorize_mutates_alpha:
  "mixture 13 = [1, 1] \<and> snd (PQ_vectorize 2 3 10 11 13 zeros mixture) 13 = [0.999, 0.999]"
  by (simp add: PQ_vectorize_heap mixture_simps)

text \<open>
  For a dry pore (\<open>Ki = Gi = 0\<close>) in a matrix with \<open>Km = 2\<close> and \<open>Gm = 3\<close>, the entry
  \<open>P\<close> of lines 404 to 421 is \<open>F1 / F2\<close> with \<open>2 F1 - 3 F2 = 3 / 2 (theta - 2 / 3)\<^sup>2\<close>;
  the auxiliary \<open>f\<close> cancels. It is the closed form \<open>3 / 2\<close> only for
  \<open>theta = 2 / 3\<close>.
\<close>

lemma pore_entry:
  assumes "fst (PQ_entry 2 3 0 0 a th) = 3 / 2"
  shows "th = 2 / 3"
proof -
  define f where "f = a\<^sup>2 * (3 * th - 2) / (1 - a\<^sup>2)"
  define F1 where "F1 = 1 / 3 - 3 / 4 * f - th / 4"
  define F2 where "F2 = - f / 2 + th / 2 - th\<^sup>2 / 2"
  have n: "1 + (0 / 3 - 1) * (1.5 * (f + th) - 3 / (2 + (4 / 3) * 3) * (1.5 * f + 2.5 * th - 4 / 3)) = F1"
    unfolding F1_def by (simp add: field_simps)
  have d: "1 + (0 / 3 - 1) * (1 + 1.5 * (f + th) - 3 / (2 + (4 / 3) * 3) * (1.5 * f + 2.5 * th))
             + (0 / 2 - 0 / 3) / 3 * (3 - 4 * (3 / (2 + (4 / 3) * 3)))
             + (0 / 3 - 1) * ((0 / 3 - 1) + 3 * ((0 / 2 - 0 / 3) / 3)) * (1.5 - 2 * (3 / (2 + (4 / 3) * 3)))
               * (f + th - 3 / (2 + (4 / 3) * 3) * (f - th + 2 * th\<^sup>2)) = F2"
    unfolding F2_def by (simp add: field_simps)
  have "fst (PQ_entry 2 3 0 0 a th) = 3 * F1 / F2 / 3"
    unfolding PQ_entry_def Let_def f_def [symmetric] fst_conv n d ..
  then have "fst (PQ_entry 2 3 0 0 a th) = F1 / F2" by simp
  then have q: "F1 / F2 = 3 / 2" using assms by simp
  then have "F2 \<noteq> 0" by auto
  then have "2 * F1 = 3 * F2" using q by (simp add: field_simps)
  then have "(th - 2 / 3)\<^sup>2 = 0"
    unfolding F1_def F2_def by (simp add: field_simps power2_eq_square)
  then show ?thesis by simp
qed

text \<open>
  C1 says that the entries with \<open>alpha_i = 1\<close> are overwritten by the closed forms of
  the sphere, \<open>P_i = (Km + 4 Gm / 3) / (Ki + 4 Gm / 3)\<close>. The program computes the masks
  of lines 423 and 425 from \<^verbatim>\<open>alpha\<close> after line 398 has replaced every 1 in it, so
  nothing is overwritten: for the mixture with spherical pores and the matrix
  \<open>Km = 2\<close>, \<open>Gm = 3\<close>, the returned \<open>P\<close> of the pore is the value of the general
  formula at aspect ratio 0.999 and differs from the closed form.
\<close>

theorem closed_form_not_applied:
  "\<exists>P Q. fst (PQ_vectorize 2 3 10 11 13 zeros mixture) = Inr (P, Q)
     \<and> P ! 1 = fst (PQ_entry 2 3 0 0 0.999 (theta_oblate 0.999))
     \<and> P ! 1 \<noteq> (2 + 4 * 3 / 3) / (mixture 10 ! 1 + 4 * 3 / 3)"
proof -
  have "theta_oblate 0.999 < 2 / 3" by (rule theta_oblate_less) simp_all
  then have "fst (PQ_entry 2 3 0 0 0.999 (theta_oblate 0.999)) \<noteq> 3 / 2"
    using pore_entry [of "0.999" "theta_oblate 0.999"] by auto
  moreover have "(2 + 4 * 3 / 3) / (mixture 10 ! 1 + 4 * 3 / 3) = (3 / 2 :: real)"
    by (simp add: mixture_simps)
  moreover have "shape_integral zeros [0.999, 0.999] ! 1 = theta_oblate 0.999"
    by (simp add: shape_integral_def Let_def)
  ultimately show ?thesis
    using PQ_vectorize_result [of mixture 10 13 11 2 3 zeros]
    by (simp add: mixture_simps Let_def)
qed

subsection \<open>The prolate shape integral\<close>

lemma reciprocal_cosh_less_arcosh: "inverse (cosh (2::real)) < arcosh 2"
proof -
  have "cosh (0::real) < cosh 2" by (intro cosh_real_strict_mono) auto
  then have "1 < cosh (2::real)" by simp
  then have a: "inverse (cosh (2::real)) < 1" by (simp add: inverse_less_1_iff)
  have "1 < sqrt (3::real)" by simp
  then have "exp 1 < 2 + sqrt (3::real)" using exp_le by linarith
  then have "ln (exp 1) < ln (2 + sqrt (3::real))"
    by (subst ln_less_cancel_iff) (auto intro: add_pos_pos)
  then have "1 < arcosh (2::real)" by (simp add: arcosh_real_def)
  with a show ?thesis by linarith
qed

text \<open>
  C3 says that for \<open>alpha_i > 1\<close> the shape integral is
  \<open>alpha_i / (alpha_i\<^sup>2 - 1) powr 1.5 * (alpha_i sqrt (alpha_i\<^sup>2 - 1) - arccosh alpha_i)\<close>.
  Line 402 subtracts \<^verbatim>\<open>np.cosh(alpha_)**-1\<close>, the reciprocal of the hyperbolic cosine,
  where the oblate line 400 uses the inverse function \<^verbatim>\<open>np.arccos\<close>: at aspect ratio 2
  the program's value is not the value of the formula with \<open>arccosh\<close>.
\<close>

theorem prolate_theta_not_arcosh:
  "shape_integral zeros [2] = [2 / (2\<^sup>2 - 1) powr (3 / 2) * (2 * (2\<^sup>2 - 1) powr 0.5 - inverse (cosh 2))]
   \<and> 2 / (2\<^sup>2 - 1) powr (3 / 2) * (2 * (2\<^sup>2 - 1) powr 0.5 - inverse (cosh 2))
     \<noteq> 2 / (2\<^sup>2 - 1) powr (3 / 2) * (2 * sqrt (2\<^sup>2 - 1) - arcosh (2::real))"
proof -
  have s: "shape_integral zeros [2]
      = [2 / (2\<^sup>2 - 1) powr (3 / 2) * (2 * (2\<^sup>2 - 1) powr 0.5 - inverse (cosh 2))]"
    by (simp add: shape_integral_def theta_prolate_def Let_def)
  have h: "(2\<^sup>2 - 1 :: real) powr 0.5 = sqrt (2\<^sup>2 - 1)"
    using powr_half_sqrt [of "2\<^sup>2 - 1 :: real"] by simp
  have c: "2 / (2\<^sup>2 - 1 :: real) powr (3 / 2) \<noteq> 0" by simp
  have "inverse (cosh (2::real)) \<noteq> arcosh 2" using reciprocal_cosh_less_arcosh by simp
  then have "2 / (2\<^sup>2 - 1) powr (3 / 2) * (2 * (2\<^sup>2 - 1) powr 0.5 - inverse (cosh 2))
     \<noteq> 2 / (2\<^sup>2 - 1) powr (3 / 2) * (2 * sqrt (2\<^sup>2 - 1) - arcosh (2::real))"
    unfolding h using c by (simp only: mult_cancel_left) simp
  with s show ?thesis by blast
qed

subsection \<open>The residuals of Berryman's scheme\<close>

lemma triple_product_sum:
  fixes xs ys zs :: "real list"
  assumes "length xs = n" "length ys = n" "length zs = n"
  shows "sum_list (map2 (*) (map2 (*) xs (map f ys)) zs) = (\<Sum>i<n. xs ! i * f (ys ! i) * zs ! i)"
  using assms by (simp add: sum_list_sum_nth atLeast0LessThan)

lemma Berrymann_func_value:
  assumes len: "length (h K) = n" "length (h G) = n" "length (h X) = n" "length (h Alpha) = n"
    and pq: "PQ_vectorize K_sc G_sc K G Alpha np_empty h = (Inr (P, Q), h')"
    and lp: "length P = n" "length Q = n"
    and same: "h' K = h K" "h' G = h G" "h' X = h X"
  shows "Berrymann_func (K_sc, G_sc) K G X Alpha np_empty h
       = (Inr (\<Sum>i<n. h X ! i * (h K ! i - K_sc) * P ! i,
               \<Sum>i<n. h X ! i * (h G ! i - G_sc) * Q ! i), h')"
  using len lp
  by (simp add: Berrymann_func_def pq same np_mul_def Let_def triple_product_sum)

lemma Berrymann_func_returns:
  assumes len: "length (h K) = length (h Alpha)" "length (h G) = length (h Alpha)"
    "length (h X) = length (h Alpha)"
  shows "\<exists>r. Berrymann_func params K G X Alpha np_empty h
            = (Inr r, h(Alpha := map (\<lambda>a. if a = 1 then 0.999 else a) (h Alpha)))"
proof -
  obtain K_sc G_sc where p: "params = (K_sc, G_sc)" by (cases params)
  define h' where "h' = h(Alpha := map (\<lambda>a. if a = 1 then 0.999 else a) (h Alpha))"
  obtain P Q where pq: "PQ_vectorize K_sc G_sc K G Alpha np_empty h = (Inr (P, Q), h')"
      and l: "length P = length (h Alpha)" "length Q = length (h Alpha)"
    using PQ_vectorize_returns [OF len(1,2), of K_sc G_sc np_empty] unfolding h'_def by blast
  have lh: "length (h' K) = length (h Alpha)" "length (h' G) = length (h Alpha)"
      "length (h' X) = length (h Alpha)"
    using len by (auto simp: h'_def)
  show ?thesis
    unfolding h'_def [symmetric] p
    using lh l by (simp add: Berrymann_func_def pq np_mul_def Let_def)
qed

text \<open>
  C5. For arrays \<open>K\<close>, \<open>G\<close>, \<open>X\<close>, \<open>Alpha\<close> of one length \<open>n\<close>, with \<open>Alpha\<close> an
  array of its own, the residuals at the trial point \<open>(K_sc, G_sc)\<close> are
  \<open>\<Sum>i X_i (K_i - K_sc) P_i\<close> and \<open>\<Sum>i X_i (G_i - G_sc) Q_i\<close>, where \<open>(P, Q)\<close> is what
  \<open>PQ_vectorize\<close> returns for \<open>(K_sc, G_sc, K, G, Alpha)\<close>; and \<open>Berrymann_sc\<close> hands
  the root finder these residuals and the starting point (mean of \<open>K\<close>, mean of \<open>G\<close>),
  and returns its iterate.
\<close>

theorem Berrymann_residual:
  assumes len: "length (h K) = n" "length (h G) = n" "length (h X) = n" "length (h Alpha) = n"
    and fresh: "Alpha \<notin> {K, G, X}"
  shows "\<exists>P Q. fst (PQ_vectorize K_sc G_sc K G Alpha np_empty h) = Inr (P, Q)
       \<and> fst (Berrymann_func (K_sc, G_sc) K G X Alpha np_empty h)
           = Inr (\<Sum>i<n. h X ! i * (h K ! i - K_sc) * P ! i,
                  \<Sum>i<n. h X ! i * (h G ! i - G_sc) * Q ! i)
       \<and> Berrymann_sc fsolve K G X Alpha np_empty h
           = map_prod (map_sum id fst) id
               (fsolve (\<lambda>params. Berrymann_func params K G X Alpha np_empty)
                       (sum_list (h K) / real n, sum_list (h G) / real n) h)"
proof -
  define h' where "h' = h(Alpha := map (\<lambda>a. if a = 1 then 0.999 else a) (h Alpha))"
  obtain P Q where pq: "PQ_vectorize K_sc G_sc K G Alpha np_empty h = (Inr (P, Q), h')"
      and l: "length P = n" "length Q = n"
    using PQ_vectorize_returns [of h K Alpha G K_sc G_sc np_empty] len unfolding h'_def by auto
  have same: "h' K = h K" "h' G = h G" "h' X = h X"
    using fresh by (auto simp: h'_def)
  have "fst (Berrymann_func (K_sc, G_sc) K G X Alpha np_empty h)
           = Inr (\<Sum>i<n. h X ! i * (h K ! i - K_sc) * P ! i,
                  \<Sum>i<n. h X ! i * (h G ! i - G_sc) * Q ! i)"
    using Berrymann_func_value [OF len pq l same] by simp
  moreover have "Berrymann_sc fsolve K G X Alpha np_empty h
           = map_prod (map_sum id fst) id
               (fsolve (\<lambda>params. Berrymann_func params K G X Alpha np_empty)
                       (sum_list (h K) / real n, sum_list (h G) / real n) h)"
    using len by (auto simp: Berrymann_sc_def np_mean_def split: prod.splits sum.splits)
  ultimately show ?thesis using pq by auto
qed

theorem Berrymann_residual_witness:
  "length (mixture 10) = 2 \<and> length (mixture 11) = 2 \<and> length (mixture 12) = 2
   \<and> length (mixture 13) = 2 \<and> (13::nat) \<notin> {10, 11, 12}
   \<and> (\<exists>P Q. fst (PQ_vectorize 2 3 10 11 13 zeros mixture) = Inr (P, Q)
       \<and> fst (Berrymann_func (2, 3) 10 11 12 13 zeros mixture)
           = Inr (\<Sum>i<2. mixture 12 ! i * (mixture 10 ! i - 2) * P ! i,
                  \<Sum>i<2. mixture 12 ! i * (mixture 11 ! i - 3) * Q ! i)
       \<and> Berrymann_sc gives_up 10 11 12 13 zeros mixture
           = map_prod (map_sum id fst) id
               (gives_up (\<lambda>params. Berrymann_func params 10 11 12 13 zeros)
                       (sum_list (mixture 10) / real 2, sum_list (mixture 11) / real 2) mixture))"
proof -
  have l: "length (mixture 10) = 2" "length (mixture 11) = 2" "length (mixture 12) = 2"
      "length (mixture 13) = 2"
    by (simp_all add: mixture_simps)
  have f: "(13::nat) \<notin> {10, 11, 12}" by simp
  show ?thesis
    using l f Berrymann_residual [OF l f, where K_sc = 2 and G_sc = 3 and np_empty = zeros
        and fsolve = gives_up]
    by blast
qed

subsection \<open>What the solvers return when the root finder fails\<close>

text \<open>
  C4, as the program has it. Whatever flag \<open>ier\<close> the root finder ends with, success
  or failure, \<open>Berrymann_sc\<close> returns its last iterate as \<open>(K_sc, G_sc)\<close>, and
  \<open>OConnell_Budiansky_fl\<close> returns the saturated moduli computed from its last iterate
  \<open>(nu_eff, D)\<close>: the result carries no flag, and no failure is raised.
\<close>

theorem solver_flag_dropped:
  "(fsolve (\<lambda>params. Berrymann_func params K G X Alpha np_empty) (np_mean (h K), np_mean (h G)) h
       = (Inr (x, ier), h')
     \<longrightarrow> Berrymann_sc fsolve K G X Alpha np_empty h = (Inr x, h'))
   \<and> (6 * K0 + 2 * G0 \<noteq> 0 \<and> alpha \<noteq> 0 \<and> K0 \<noteq> 0
      \<and> fsolve (\<lambda>params h. (Inr (OC_R_funcs params crd ((3 * K0 - 2 * G0) / (6 * K0 + 2 * G0))
                                            (Kfl / alpha / K0)), h)) (0.2, 0.9) h
          = (Inr ((nu_eff, D), ier), h')
     \<longrightarrow> OConnell_Budiansky_fl fsolve K0 G0 Kfl crd alpha h
          = (Inr (K0 * (1 - 16 * (1 - nu_eff\<^sup>2) * crd * D / (9 * (1 - 2 * nu_eff))),
                  G0 * (1 - 32 / 45 * (1 - nu_eff) * (D + 3 / (2 - nu_eff)) * crd)), h'))"
proof (intro conjI impI)
  assume "fsolve (\<lambda>params. Berrymann_func params K G X Alpha np_empty) (np_mean (h K), np_mean (h G)) h
       = (Inr (x, ier), h')"
  then show "Berrymann_sc fsolve K G X Alpha np_empty h = (Inr x, h')"
    by (cases x) (simp add: Berrymann_sc_def)
next
  assume a: "6 * K0 + 2 * G0 \<noteq> 0 \<and> alpha \<noteq> 0 \<and> K0 \<noteq> 0
      \<and> fsolve (\<lambda>params h. (Inr (OC_R_funcs params crd ((3 * K0 - 2 * G0) / (6 * K0 + 2 * G0))
                                            (Kfl / alpha / K0)), h)) (0.2, 0.9) h
          = (Inr ((nu_eff, D), ier), h')"
  then show "OConnell_Budiansky_fl fsolve K0 G0 Kfl crd alpha h
          = (Inr (K0 * (1 - 16 * (1 - nu_eff\<^sup>2) * crd * D / (9 * (1 - 2 * nu_eff))),
                  G0 * (1 - 32 / 45 * (1 - nu_eff) * (D + 3 / (2 - nu_eff)) * crd)), h')"
    by (simp add: OConnell_Budiansky_fl_def py_div_def Let_def)
qed

lemma gives_up_Berrymann:
  "gives_up (\<lambda>params. Berrymann_func params 10 11 12 13 zeros) (18, 45 / 2) mixture
     = (Inr ((18, 45 / 2), 5), mixture(13 := [0.999, 0.999]))"
proof -
  obtain r where "Berrymann_func (18, 45 / 2) 10 11 12 13 zeros mixture
            = (Inr r, mixture(13 := map (\<lambda>a. if a = 1 then 0.999 else a) (mixture 13)))"
    using Berrymann_func_returns [of mixture 10 13 11 12 "(18, 45 / 2)" zeros]
    by (auto simp: mixture_simps)
  then show ?thesis by (simp add: gives_up_def mixture_simps)
qed

theorem solver_flag_dropped_witness:
  "gives_up (\<lambda>params. Berrymann_func params 10 11 12 13 zeros) (np_mean (mixture 10), np_mean (mixture 11)) mixture
       = (Inr ((18, 45 / 2), 5), mixture(13 := [0.999, 0.999]))
   \<and> Berrymann_sc gives_up 10 11 12 13 zeros mixture = (Inr (18, 45 / 2), mixture(13 := [0.999, 0.999]))
   \<and> 6 * (36::real) + 2 * 45 \<noteq> 0 \<and> (1 / 100 :: real) \<noteq> 0 \<and> (36::real) \<noteq> 0
   \<and> gives_up (\<lambda>params h. (Inr (OC_R_funcs params (1 / 10) ((3 * 36 - 2 * 45) / (6 * 36 + 2 * 45))
                                            (2 / (1 / 100) / 36)), h)) (0.2, 0.9) mixture
          = (Inr ((0.2, 0.9), 5), mixture)
   \<and> OConnell_Budiansky_fl gives_up 36 45 2 (1 / 10) (1 / 100) mixture
          = (Inr (3348 / 125, 14411 / 375), mixture)"
proof -
  have m: "np_mean (mixture 10) = 18" "np_mean (mixture 11) = 45 / 2"
    by (simp_all add: np_mean_def mixture_simps)
  have b: "gives_up (\<lambda>params. Berrymann_func params 10 11 12 13 zeros)
             (np_mean (mixture 10), np_mean (mixture 11)) mixture
       = (Inr ((18, 45 / 2), 5), mixture(13 := [0.999, 0.999]))"
    unfolding m by (rule gives_up_Berrymann)
  have o: "gives_up (\<lambda>params h. (Inr (OC_R_funcs params (1 / 10) ((3 * 36 - 2 * 45) / (6 * 36 + 2 * 45))
                                            (2 / (1 / 100) / 36)), h)) (0.2, 0.9) mixture
          = (Inr ((0.2, 0.9), 5), mixture)"
    by (simp add: gives_up_def)
  have B: "Berrymann_sc gives_up 10 11 12 13 zeros mixture
             = (Inr (18, 45 / 2), mixture(13 := [0.999, 0.999]))"
    using solver_flag_dropped [where fsolve = gives_up and K = 10 and G = 11 and X = 12
        and Alpha = 13 and np_empty = zeros and h = mixture, THEN conjunct1, THEN mp, OF b] .
  have c: "6 * (36::real) + 2 * 45 \<noteq> 0 \<and> (1 / 100 :: real) \<noteq> 0 \<and> (36::real) \<noteq> 0
     \<and> gives_up (\<lambda>params h. (Inr (OC_R_funcs params (1 / 10) ((3 * 36 - 2 * 45) / (6 * 36 + 2 * 45))
                                            (2 / (1 / 100) / 36)), h)) (0.2, 0.9) mixture
          = (Inr ((0.2, 0.9), 5), mixture)"
    using o by simp
  have O: "OConnell_Budiansky_fl gives_up 36 45 2 (1 / 10) (1 / 100) mixture
          = (Inr (3348 / 125, 14411 / 375), mixture)"
    using solver_flag_dropped [where fsolve = gives_up and h = mixture and K0 = 36 and G0 = 45
        and alpha = "1 / 100" and crd = "1 / 10" and Kfl = 2, THEN conjunct2, THEN mp, OF c]
    by (simp add: power2_eq_square)
  show ?thesis using b B c O by simp
qed

text \<open>
  A root finder that gives up at the starting point with \<^verbatim>\<open>ier = 5\<close>: both solvers
  return a pair of moduli like any other.
\<close>

theorem solver_failure_counterexample:
  "fst (gives_up (\<lambda>params. Berrymann_func params 10 11 12 13 zeros) (18, 45 / 2) mixture)
       = Inr ((18, 45 / 2), 5)
   \<and> (5::int) \<noteq> 1
   \<and> fst (Berrymann_sc gives_up 10 11 12 13 zeros mixture) = Inr (18, 45 / 2)
   \<and> fst (OConnell_Budiansky_fl gives_up 36 45 2 (1 / 10) (1 / 100) mixture)
       = Inr (3348 / 125, 14411 / 375)"
proof -
  have m: "np_mean (mixture 10) = 18" "np_mean (mixture 11) = 45 / 2"
    by (simp_all add: np_mean_def mixture_simps)
  have "fst (Berrymann_sc gives_up 10 11 12 13 zeros mixture) = Inr (18, 45 / 2)"
    unfolding Berrymann_sc_def m gives_up_Berrymann by simp
  moreover have "fst (OConnell_Budiansky_fl gives_up 36 45 2 (1 / 10) (1 / 100) mixture)
       = Inr (3348 / 125, 14411 / 375)"
    by (simp add: OConnell_Budiansky_fl_def py_div_def gives_up_def Let_def power2_eq_square)
  ultimately show ?thesis by (simp add: gives_up_Berrymann)
qed

end
